theory Spec2Isabelle
  imports Main
begin

section \<open>The account table\<close>

text \<open>
  One row of the table \<^verbatim>\<open>users\<close> (class \<^verbatim>\<open>User\<close>). The primary key is called
  \<open>user_id\<close> here because \<open>id\<close> is the identity function of HOL. Timestamps are
  seconds, as natural numbers. The two reset columns are the ones the handlers leave
  \<^verbatim>\<open>NULL\<close>; every other column is set by the only insertion in the program.
\<close>

record User =
  user_id :: nat
  first_name :: string
  last_name :: string
  email :: string
  phone_number :: int
  password :: string
  created_at :: nat
  reset_token :: "string option"
  reset_token_expires :: "nat option"

text \<open>
  The committed contents of the database: the rows in insertion order and the value
  the primary-key sequence hands out next.
\<close>

record store =
  rows :: "User list"
  next_id :: nat

text \<open>\<^verbatim>\<open>db.query(User).filter(User.email == email).first()\<close>\<close>

definition find_by_email :: "User list \<Rightarrow> string \<Rightarrow> User option" where
  "find_by_email rs e = find (\<lambda>u. email u = e) rs"

text \<open>
  \<^verbatim>\<open>db.query(User).filter((User.email == e) | (User.phone_number == p)).first()\<close>
\<close>

definition find_by_email_or_phone :: "User list \<Rightarrow> string \<Rightarrow> int \<Rightarrow> User option" where
  "find_by_email_or_phone rs e p = find (\<lambda>u. email u = e \<or> phone_number u = p) rs"

text \<open>
  The \<^verbatim>\<open>INSERT\<close> a commit flushes after \<^verbatim>\<open>db.add\<close>. The columns \<^verbatim>\<open>email\<close> and
  \<^verbatim>\<open>phone_number\<close> are declared \<^verbatim>\<open>unique=True\<close>: a duplicate makes the statement fail
  (\<open>None\<close>). The key comes from the sequence.
\<close>

definition insert_user :: "store \<Rightarrow> User \<Rightarrow> store option" where
  "insert_user db u =
     (case find_by_email_or_phone (rows db) (email u) (phone_number u) of
        Some r \<Rightarrow> None
      | None \<Rightarrow>
          Some \<lparr>rows = rows db @ [u\<lparr>user_id := next_id db\<rparr>], next_id = Suc (next_id db)\<rparr>)"

text \<open>
  The \<^verbatim>\<open>UPDATE ... WHERE id = ?\<close> a commit flushes for a loaded row whose attributes
  were assigned.
\<close>

definition update_user :: "store \<Rightarrow> User \<Rightarrow> store" where
  "update_user db u = db\<lparr>rows := map (\<lambda>r. if user_id r = user_id u then u else r) (rows db)\<rparr>"

section \<open>Effects, faults and results\<close>

text \<open>
  The calls a handler makes on the session and on the libraries, in the order it makes
  them. A handler returns its trace next to its result, so that what was called, and in
  which order, can be stated.
\<close>

datatype event =
    SessionOpen | PwdHash | PwdVerify | DbQuery | DbAdd | DbCommit | DbRefresh
  | DbRollback | DbClose | JwtEncode | JwtDecode | MailEnqueue

text \<open>
  What a request can end with other than a response: FastAPI's \<^verbatim>\<open>HTTPException\<close> with
  its status code and detail, the rejection of the request by the declared parameter
  types (with the names of the failing fields), the two PyJWT exceptions the program
  names, and any other exception, tagged with the call that raised it.
\<close>

datatype exn =
    HTTPException nat string
  | RequestValidationError "string list"
  | ExpiredSignatureError
  | InvalidTokenError
  | Unexpected event

datatype response = Message string

type_synonym outcome = "(exn + response) \<times> store \<times> event list"

text \<open>
  What \<^verbatim>\<open>jwt.decode\<close> does with a token at a given time: it raises
  \<^verbatim>\<open>ExpiredSignatureError\<close>, it raises another \<^verbatim>\<open>InvalidTokenError\<close>, it raises an
  exception that is neither (\<open>Raised\<close>: a \<^verbatim>\<open>TypeError\<close> when the secret key is not set),
  or it returns the payload, of which the program reads \<^verbatim>\<open>payload.get("email")\<close>.
\<close>

datatype jwt_result = Expired | Invalid | Raised | Claims "string option"

text \<open>
  What the program uses and does not contain, as parameters of every handler: the
  \<^verbatim>\<open>EmailStr\<close> type of pydantic (\<open>None\<close>: not an address; otherwise the address as the
  validated model holds it), the bcrypt context of passlib (the hash takes the salt it
  draws), PyJWT with the secret key (the decoder takes the current time), and the
  character tables of the Python runtime. \<open>unicode_decimal c\<close> is the value of the code
  point \<open>c\<close> when it is a decimal digit of some script (what \<^verbatim>\<open>int\<close> reads: \<open>0\<close> to
  \<open>9\<close>, the Arabic-Indic digits, the fullwidth digits and so on);
  \<open>unicode_digit_only c\<close> holds for the further characters \<^verbatim>\<open>str.isdigit\<close> accepts and
  \<^verbatim>\<open>int\<close> does not (the superscript digits and the like).
\<close>

record libs =
  EmailStr :: "string \<Rightarrow> string option"
  pwd_hash :: "string \<Rightarrow> string \<Rightarrow> string"
  pwd_verify :: "string \<Rightarrow> string \<Rightarrow> bool"
  jwt_encode :: "string \<Rightarrow> nat \<Rightarrow> string"
  jwt_decode :: "string \<Rightarrow> nat \<Rightarrow> jwt_result"
  unicode_decimal :: "nat \<Rightarrow> nat option"
  unicode_digit_only :: "nat \<Rightarrow> bool"

text \<open>
  What one request reads from outside: the clock (\<open>utcnow env k\<close> is the k-th reading
  of \<^verbatim>\<open>datetime.utcnow()\<close>), the database server's clock, the salt, and which calls
  raise an exception of their own (a lost connection, a password the bcrypt context
  refuses, such as one with a NUL character, a mail configuration that does not
  validate). \<^verbatim>\<open>rollback\<close> and \<^verbatim>\<open>close\<close> are taken not to raise.
\<close>

record env =
  utcnow :: "nat \<Rightarrow> nat"
  db_now :: nat
  salt :: string
  fails :: "event \<Rightarrow> bool"

definition result_of :: "outcome \<Rightarrow> exn + response" where
  "result_of out = fst out"

definition store_of :: "outcome \<Rightarrow> store" where
  "store_of out = fst (snd out)"

definition trace_of :: "outcome \<Rightarrow> event list" where
  "trace_of out = snd (snd out)"

text \<open>The calls made before a block, put in front of the block's own.\<close>

definition after_calls :: "event list \<Rightarrow> outcome \<Rightarrow> outcome" where
  "after_calls pre out = (result_of out, store_of out, pre @ trace_of out)"

text \<open>\<^verbatim>\<open>finally: db.close()\<close>\<close>

definition finally_close :: "outcome \<Rightarrow> outcome" where
  "finally_close out = (result_of out, store_of out, trace_of out @ [DbClose])"

section \<open>Registration\<close>

subsection \<open>The request model \<^verbatim>\<open>UserCreate\<close>\<close>

text \<open>
  The JSON body as it arrives: five strings. The phone number is the one string the
  program looks into, character by character, so it is the list of its Unicode code
  points; the other four are only handed on.
\<close>

record UserCreate_raw =
  rq_first_name :: string
  rq_last_name :: string
  rq_email :: string
  rq_phone_number :: "nat list"
  rq_password :: string

text \<open>The code points of a string of characters below 256.\<close>

definition code_points :: "string \<Rightarrow> nat list" where
  "code_points s = map of_char s"

text \<open>The validated model: the validator has replaced the phone number by an integer.\<close>

record UserCreate =
  uc_first_name :: string
  uc_last_name :: string
  uc_email :: string
  uc_phone_number :: int
  uc_password :: string

text \<open>
  \<^verbatim>\<open>str.isdigit\<close>: the string is not empty and each character is a digit, decimal or
  not. \<^verbatim>\<open>int\<close> on such a string: the number its decimal digits spell, of whatever
  scripts they are, and \<^verbatim>\<open>ValueError\<close> (\<open>None\<close>) when a character is not a decimal
  digit.
\<close>

definition isdecimal_char :: "libs \<Rightarrow> nat \<Rightarrow> bool" where
  "isdecimal_char L c = (unicode_decimal L c \<noteq> None)"

definition isdigit_char :: "libs \<Rightarrow> nat \<Rightarrow> bool" where
  "isdigit_char L c = (isdecimal_char L c \<or> unicode_digit_only L c)"

definition isdigit :: "libs \<Rightarrow> nat list \<Rightarrow> bool" where
  "isdigit L v = (v \<noteq> [] \<and> list_all (isdigit_char L) v)"

fun int_of_digits :: "libs \<Rightarrow> int \<Rightarrow> nat list \<Rightarrow> int option" where
  "int_of_digits L a [] = Some a"
| "int_of_digits L a (c # cs) =
     (case unicode_decimal L c of
        None \<Rightarrow> None
      | Some d \<Rightarrow> int_of_digits L (10 * a + int d) cs)"

text \<open>
  The validator of \<^verbatim>\<open>phone_number\<close>. Both the \<^verbatim>\<open>ValueError\<close> it raises and the one
  \<^verbatim>\<open>int\<close> raises are validation errors of the field.
\<close>

definition validate_phone_number :: "libs \<Rightarrow> nat list \<Rightarrow> string + int" where
  "validate_phone_number L v =
     (if \<not> isdigit L v
      then Inl ''Phone number must be numeric and between 10 to 15 digits long''
      else if \<not> (10 \<le> length v \<and> length v \<le> 15)
      then Inl ''Phone number must be numeric and between 10 to 15 digits long''
      else case int_of_digits L 0 v of
             None \<Rightarrow> Inl ''invalid literal for int() with base 10''
           | Some n \<Rightarrow> Inr n)"

text \<open>
  Building \<^verbatim>\<open>UserCreate\<close> from the body. The three \<^verbatim>\<open>str\<close> fields take any string;
  \<^verbatim>\<open>email\<close> is an \<^verbatim>\<open>EmailStr\<close>; \<^verbatim>\<open>phone_number\<close> goes through its validator. The
  fields that fail are collected, in the order of the class.
\<close>

definition UserCreate_validate :: "libs \<Rightarrow> UserCreate_raw \<Rightarrow> exn + UserCreate" where
  "UserCreate_validate L rq =
     (case (EmailStr L (rq_email rq), validate_phone_number L (rq_phone_number rq)) of
        (Some e, Inr n) \<Rightarrow>
          Inr \<lparr>uc_first_name = rq_first_name rq, uc_last_name = rq_last_name rq,
               uc_email = e, uc_phone_number = n, uc_password = rq_password rq\<rparr>
      | (Some e, Inl m) \<Rightarrow> Inl (RequestValidationError [''phone_number''])
      | (None, Inr n) \<Rightarrow> Inl (RequestValidationError [''email''])
      | (None, Inl m) \<Rightarrow> Inl (RequestValidationError [''email'', ''phone_number'']))"

subsection \<open>The handler\<close>

text \<open>The body of the \<^verbatim>\<open>try\<close> block of \<^verbatim>\<open>register\<close>.\<close>

definition register_try :: "env \<Rightarrow> store \<Rightarrow> UserCreate \<Rightarrow> string \<Rightarrow> outcome" where
  "register_try env db user hashed_password =
     (if fails env DbQuery then (Inl (Unexpected DbQuery), db, [DbQuery])
      else case find_by_email_or_phone (rows db) (uc_email user) (uc_phone_number user) of
        Some existing \<Rightarrow>
          (Inl (HTTPException 400 ''Email or Phone Number already registered''), db, [DbQuery])
      | None \<Rightarrow>
          (let new_user =
                 \<lparr>user_id = 0, first_name = uc_first_name user, last_name = uc_last_name user,
                  email = uc_email user, phone_number = uc_phone_number user,
                  password = hashed_password, created_at = db_now env,
                  reset_token = None, reset_token_expires = None\<rparr>
           in if fails env DbCommit
              then (Inl (Unexpected DbCommit), db, [DbQuery, DbAdd, DbCommit])
              else case insert_user db new_user of
                None \<Rightarrow> (Inl (Unexpected DbCommit), db, [DbQuery, DbAdd, DbCommit])
              | Some db' \<Rightarrow>
                  if fails env DbRefresh
                  then (Inl (Unexpected DbRefresh), db', [DbQuery, DbAdd, DbCommit, DbRefresh])
                  else (Inr (Message ''User registered successfully''), db',
                        [DbQuery, DbAdd, DbCommit, DbRefresh])))"

text \<open>
  The \<^verbatim>\<open>except\<close> clauses of \<^verbatim>\<open>register\<close>: an \<^verbatim>\<open>HTTPException\<close> is raised again as it
  is; any other exception rolls the session back and becomes a 500.
\<close>

fun register_except :: "outcome \<Rightarrow> outcome" where
  "register_except (Inl (HTTPException code detail), db, tr) =
     (Inl (HTTPException code detail), db, tr)"
| "register_except (Inl e, db, tr) =
     (Inl (HTTPException 500 ''An error occurred during registration.''), db, tr @ [DbRollback])"
| "register_except (Inr r, db, tr) = (Inr r, db, tr)"

text \<open>
  \<^verbatim>\<open>register\<close>: the session is opened and the password hashed before the \<^verbatim>\<open>try\<close>
  block is entered, so an exception of the hasher leaves the function as it is.
\<close>

definition register :: "libs \<Rightarrow> env \<Rightarrow> store \<Rightarrow> UserCreate \<Rightarrow> outcome" where
  "register L env db user =
     (if fails env PwdHash then (Inl (Unexpected PwdHash), db, [SessionOpen, PwdHash])
      else after_calls [SessionOpen, PwdHash]
             (finally_close
               (register_except
                 (register_try env db user (pwd_hash L (salt env) (uc_password user))))))"

text \<open>
  \<^verbatim>\<open>POST /register\<close>: the framework builds the \<^verbatim>\<open>UserCreate\<close> and calls the handler
  only when that succeeds.
\<close>

definition register_endpoint :: "libs \<Rightarrow> env \<Rightarrow> store \<Rightarrow> UserCreate_raw \<Rightarrow> outcome" where
  "register_endpoint L env db rq =
     (case UserCreate_validate L rq of
        Inl e \<Rightarrow> (Inl e, db, [])
      | Inr user \<Rightarrow> register L env db user)"

section \<open>Login\<close>

text \<open>
  \<^verbatim>\<open>login\<close> has no \<^verbatim>\<open>try\<close> block: the session is closed by hand before each
  \<^verbatim>\<open>raise\<close> and before the \<^verbatim>\<open>return\<close>, and an exception of the query or of
  \<^verbatim>\<open>pwd_context.verify\<close> leaves the function as it is, with the session open.
\<close>

definition login :: "libs \<Rightarrow> env \<Rightarrow> store \<Rightarrow> string \<Rightarrow> string \<Rightarrow> outcome" where
  "login L env db email' password' =
     (if fails env DbQuery then (Inl (Unexpected DbQuery), db, [SessionOpen, DbQuery])
      else case find_by_email (rows db) email' of
        None \<Rightarrow>
          (Inl (HTTPException 400 ''Email not found''), db, [SessionOpen, DbQuery, DbClose])
      | Some user \<Rightarrow>
          if fails env PwdVerify
          then (Inl (Unexpected PwdVerify), db, [SessionOpen, DbQuery, PwdVerify])
          else if \<not> pwd_verify L password' (password user)
          then (Inl (HTTPException 400 ''Invalid password''), db,
                [SessionOpen, DbQuery, PwdVerify, DbClose])
          else (Inr (Message ''Login successful''), db,
                [SessionOpen, DbQuery, PwdVerify, DbClose]))"

section \<open>Forgot password\<close>

text \<open>
  \<^verbatim>\<open>forgot_password\<close> has no \<^verbatim>\<open>try\<close> block either. The token expires one hour
  (3600 seconds) after the first reading of the clock, the stored expiry is one hour
  after the second. Building the message, the mailer and the background task is the
  call \<open>MailEnqueue\<close>; the mail itself is sent after the response.
\<close>

definition forgot_password :: "libs \<Rightarrow> env \<Rightarrow> store \<Rightarrow> string \<Rightarrow> outcome" where
  "forgot_password L env db email' =
     (if fails env DbQuery then (Inl (Unexpected DbQuery), db, [SessionOpen, DbQuery])
      else case find_by_email (rows db) email' of
        None \<Rightarrow>
          (Inl (HTTPException 404 ''Email not found''), db, [SessionOpen, DbQuery, DbClose])
      | Some user \<Rightarrow>
          if fails env JwtEncode
          then (Inl (Unexpected JwtEncode), db, [SessionOpen, DbQuery, JwtEncode])
          else
            (let token = jwt_encode L (email user) (utcnow env 0 + 3600);
                 user' = user\<lparr>reset_token := Some token,
                              reset_token_expires := Some (utcnow env 1 + 3600)\<rparr>
             in if fails env DbCommit
                then (Inl (Unexpected DbCommit), db, [SessionOpen, DbQuery, JwtEncode, DbCommit])
                else if fails env MailEnqueue
                then (Inl (Unexpected MailEnqueue), update_user db user',
                      [SessionOpen, DbQuery, JwtEncode, DbCommit, MailEnqueue])
                else (Inr (Message ''Password reset email sent''), update_user db user',
                      [SessionOpen, DbQuery, JwtEncode, DbCommit, MailEnqueue, DbClose])))"

section \<open>Reset password\<close>

text \<open>
  The body of the \<^verbatim>\<open>try\<close> block of \<^verbatim>\<open>reset_password\<close>. \<^verbatim>\<open>payload.get("email")\<close> is
  \<open>None\<close> when the token carries no email, and then no row matches. The reset columns
  of the row are neither read nor written. An exception of \<^verbatim>\<open>jwt.decode\<close> that is not
  one of PyJWT's two is an unexpected one of that call.
\<close>

definition reset_password_try :: "libs \<Rightarrow> env \<Rightarrow> store \<Rightarrow> string \<Rightarrow> string \<Rightarrow> outcome" where
  "reset_password_try L env db token new_password =
     (case jwt_decode L token (utcnow env 0) of
        Expired \<Rightarrow> (Inl ExpiredSignatureError, db, [JwtDecode])
      | Invalid \<Rightarrow> (Inl InvalidTokenError, db, [JwtDecode])
      | Raised \<Rightarrow> (Inl (Unexpected JwtDecode), db, [JwtDecode])
      | Claims email' \<Rightarrow>
          if fails env DbQuery then (Inl (Unexpected DbQuery), db, [JwtDecode, DbQuery])
          else case (case email' of None \<Rightarrow> None | Some e \<Rightarrow> find_by_email (rows db) e) of
            None \<Rightarrow> (Inl (HTTPException 400 ''Invalid token''), db, [JwtDecode, DbQuery])
          | Some user \<Rightarrow>
              if fails env PwdHash
              then (Inl (Unexpected PwdHash), db, [JwtDecode, DbQuery, PwdHash])
              else if fails env DbCommit
              then (Inl (Unexpected DbCommit), db, [JwtDecode, DbQuery, PwdHash, DbCommit])
              else (Inr (Message ''Password reset successfully''),
                    update_user db (user\<lparr>password := pwd_hash L (salt env) new_password\<rparr>),
                    [JwtDecode, DbQuery, PwdHash, DbCommit]))"

text \<open>
  The \<^verbatim>\<open>except\<close> clauses of \<^verbatim>\<open>reset_password\<close>: only the two PyJWT exceptions are
  caught; everything else passes through.
\<close>

fun reset_password_except :: "outcome \<Rightarrow> outcome" where
  "reset_password_except (Inl ExpiredSignatureError, db, tr) =
     (Inl (HTTPException 400 ''Token has expired''), db, tr)"
| "reset_password_except (Inl InvalidTokenError, db, tr) =
     (Inl (HTTPException 400 ''Invalid token''), db, tr)"
| "reset_password_except (r, db, tr) = (r, db, tr)"

definition reset_password :: "libs \<Rightarrow> env \<Rightarrow> store \<Rightarrow> string \<Rightarrow> string \<Rightarrow> outcome" where
  "reset_password L env db token new_password =
     after_calls [SessionOpen]
       (finally_close (reset_password_except (reset_password_try L env db token new_password)))"

section \<open>The service as a transition system\<close>

text \<open>The four requests that reach the store, with their parameters.\<close>

datatype request =
    Register UserCreate_raw
  | Login string string
  | ForgotPassword string
  | ResetPassword string string

definition serve :: "libs \<Rightarrow> env \<Rightarrow> store \<Rightarrow> request \<Rightarrow> outcome" where
  "serve L env db rq =
     (case rq of
        Register body \<Rightarrow> register_endpoint L env db body
      | Login e p \<Rightarrow> login L env db e p
      | ForgotPassword e \<Rightarrow> forgot_password L env db e
      | ResetPassword t p \<Rightarrow> reset_password L env db t p)"

text \<open>
  The stores the service can be in: it starts on an empty table, and every request,
  whatever it reads from outside and however it ends, leaves the store of its outcome.
\<close>

inductive reachable :: "libs \<Rightarrow> store \<Rightarrow> bool" for L :: libs where
  start: "rows db = [] \<Longrightarrow> reachable L db"
| request: "reachable L db \<Longrightarrow> reachable L (store_of (serve L env db rq))"

section \<open>Properties stated about the handlers\<close>

text \<open>
  \<open>precedes a b tr\<close>: in the trace no call \<open>b\<close> is made before the first call \<open>a\<close>
  (so \<open>b\<close> is not made at all when \<open>a\<close> is not).
\<close>

definition precedes :: "event \<Rightarrow> event \<Rightarrow> event list \<Rightarrow> bool" where
  "precedes a b tr = (b \<notin> set (takeWhile (\<lambda>e. e \<noteq> a) tr))"

text \<open>The two reset columns of a row are both \<^verbatim>\<open>NULL\<close> or both set.\<close>

definition reset_fields_paired :: "User \<Rightarrow> bool" where
  "reset_fields_paired u = ((reset_token u = None) = (reset_token_expires u = None))"

definition reset_invariant :: "store \<Rightarrow> bool" where
  "reset_invariant db = list_all reset_fields_paired (rows db)"

text \<open>
  The shape the validated model asks of a body: an address \<^verbatim>\<open>EmailStr\<close> accepts, and a
  phone number of 10 to 15 characters, each a decimal digit (of any script). The names
  and the password do not occur.
\<close>

definition well_formed_body :: "libs \<Rightarrow> UserCreate_raw \<Rightarrow> bool" where
  "well_formed_body L rq =
     (EmailStr L (rq_email rq) \<noteq> None \<and> list_all (isdecimal_char L) (rq_phone_number rq)
      \<and> 10 \<le> length (rq_phone_number rq) \<and> length (rq_phone_number rq) \<le> 15)"

text \<open>
  The same store with other contents in the reset columns: \<open>t\<close> and \<open>x\<close> give, for each
  primary key, the token and the expiry to put there.
\<close>

definition with_reset_fields :: "(nat \<Rightarrow> string option) \<Rightarrow> (nat \<Rightarrow> nat option) \<Rightarrow> store \<Rightarrow> store" where
  "with_reset_fields t x db =
     db\<lparr>rows := map (\<lambda>r. r\<lparr>reset_token := t (user_id r),
                              reset_token_expires := x (user_id r)\<rparr>) (rows db)\<rparr>"

section \<open>Concrete libraries and inputs\<close>

text \<open>
  Small stand-ins for the libraries, to run the handlers on concrete requests: an
  address is a string with an \<open>@\<close>; the hash of \<open>p\<close> is \<open>$\<close> followed by \<open>p\<close>; the only
  token is \<open>T1\<close>, for \<open>a@x.com\<close>, and it expires at time 4600; the decimal digits are
  \<open>0\<close> to \<open>9\<close> (48 to 57) and the Arabic-Indic digits (1632 to 1641), the other digits
  the superscripts two, three and one (178, 179, 185).
\<close>

definition toy_libs :: libs where
  "toy_libs =
     \<lparr>EmailStr = (\<lambda>s. if CHR ''@'' \<in> set s then Some s else None),
      pwd_hash = (\<lambda>s p. CHR ''$'' # p),
      pwd_verify = (\<lambda>p h. h = CHR ''$'' # p),
      jwt_encode = (\<lambda>e t. ''T1''),
      jwt_decode = (\<lambda>tok now.
         if tok = ''T1'' then (if now < 4600 then Claims (Some ''a@x.com'') else Expired)
         else Invalid),
      unicode_decimal = (\<lambda>c.
         if 48 \<le> c \<and> c \<le> 57 then Some (c - 48)
         else if 1632 \<le> c \<and> c \<le> 1641 then Some (c - 1632)
         else None),
      unicode_digit_only = (\<lambda>c. c \<in> {178, 179, 185})\<rparr>"

definition env_ok :: env where
  "env_ok = \<lparr>utcnow = (\<lambda>k. 1000), db_now = 1000, salt = ''s'', fails = (\<lambda>e. False)\<rparr>"

definition env_commit_fails :: env where
  "env_commit_fails = env_ok\<lparr>fails := (\<lambda>e. e = DbCommit)\<rparr>"

definition empty_store :: store where
  "empty_store = \<lparr>rows = [], next_id = 1\<rparr>"

definition rq_alice :: UserCreate_raw where
  "rq_alice =
     \<lparr>rq_first_name = ''Alice'', rq_last_name = ''A'', rq_email = ''a@x.com'',
      rq_phone_number = code_points ''1234567890'', rq_password = ''p1''\<rparr>"

definition alice :: User where
  "alice =
     \<lparr>user_id = 1, first_name = ''Alice'', last_name = ''A'', email = ''a@x.com'',
      phone_number = 1234567890, password = ''$p1'', created_at = 1000,
      reset_token = None, reset_token_expires = None\<rparr>"

definition store_alice :: store where
  "store_alice = \<lparr>rows = [alice], next_id = 2\<rparr>"

definition env_later :: env where
  "env_later = \<lparr>utcnow = (\<lambda>k. 2000), db_now = 2000, salt = ''t'', fails = (\<lambda>e. False)\<rparr>"

definition rq_blank :: UserCreate_raw where
  "rq_blank =
     \<lparr>rq_first_name = [], rq_last_name = [], rq_email = ''b@x.com'',
      rq_phone_number = code_points ''9876543210'', rq_password = []\<rparr>"

definition rq_short_phone :: UserCreate_raw where
  "rq_short_phone =
     \<lparr>rq_first_name = ''Carol'', rq_last_name = ''C'', rq_email = ''c@x.com'',
      rq_phone_number = code_points ''12345'', rq_password = ''p3''\<rparr>"

text \<open>A body whose phone number is 1234567890 in Arabic-Indic digits.\<close>

definition rq_arabic_digits :: UserCreate_raw where
  "rq_arabic_digits =
     \<lparr>rq_first_name = ''Dana'', rq_last_name = ''D'', rq_email = ''d@x.com'',
      rq_phone_number = [1633, 1634, 1635, 1636, 1637, 1638, 1639, 1640, 1641, 1632],
      rq_password = ''p4''\<rparr>"

text \<open>A body whose phone number is ten times the superscript two.\<close>

definition rq_superscripts :: UserCreate_raw where
  "rq_superscripts =
     \<lparr>rq_first_name = ''Eve'', rq_last_name = ''E'', rq_email = ''e@x.com'',
      rq_phone_number = [178, 178, 178, 178, 178, 178, 178, 178, 178, 178],
      rq_password = ''p5''\<rparr>"

definition env_verify_fails :: env where
  "env_verify_fails = env_ok\<lparr>fails := (\<lambda>e. e = PwdVerify)\<rparr>"


text \<open>The account after \<^verbatim>\<open>forgot_password\<close> at time 1000, and after a reset to \<open>new1\<close>.\<close>

definition alice_pending :: User where
  "alice_pending = alice\<lparr>reset_token := Some ''T1'', reset_token_expires := Some 4600\<rparr>"

definition store_pending :: store where
  "store_pending = \<lparr>rows = [alice_pending], next_id = 2\<rparr>"

definition store_reset_once :: store where
  "store_reset_once = \<lparr>rows = [alice_pending\<lparr>password := ''$new1''\<rparr>], next_id = 2\<rparr>"

definition store_reset_twice :: store where
  "store_reset_twice = \<lparr>rows = [alice_pending\<lparr>password := ''$new2''\<rparr>], next_id = 2\<rparr>"

section \<open>Evaluation of the concrete inputs\<close>

lemma toy_libs_simps:
  "EmailStr toy_libs s = (if CHR ''@'' \<in> set s then Some s else None)"
  "pwd_hash toy_libs sl p = CHR ''$'' # p"
  "pwd_verify toy_libs p h = (h = CHR ''$'' # p)"
  "jwt_encode toy_libs e n = ''T1''"
  "jwt_decode toy_libs tok now =
     (if tok = ''T1'' then (if now < 4600 then Claims (Some ''a@x.com'') else Expired)
      else Invalid)"
  "unicode_decimal toy_libs c =
     (if 48 \<le> c \<and> c \<le> 57 then Some (c - 48)
      else if 1632 \<le> c \<and> c \<le> 1641 then Some (c - 1632)
      else None)"
  "unicode_digit_only toy_libs c = (c \<in> {178, 179, 185})"
  by (simp_all add: toy_libs_def)

lemma env_simps:
  "utcnow env_ok k = 1000" "db_now env_ok = 1000" "salt env_ok = ''s''" "fails env_ok ev = False"
  "utcnow env_later k = 2000" "db_now env_later = 2000" "salt env_later = ''t''"
  "fails env_later ev = False"
  "utcnow env_commit_fails k = 1000" "salt env_commit_fails = ''s''"
  "fails env_commit_fails ev = (ev = DbCommit)"
  "fails env_verify_fails ev = (ev = PwdVerify)"
  by (simp_all add: env_ok_def env_later_def env_commit_fails_def env_verify_fails_def)

lemma validate_phone_number_example:
  "validate_phone_number toy_libs (code_points ''1234567890'') = Inr 1234567890"
  by (simp add: validate_phone_number_def isdigit_def isdigit_char_def isdecimal_char_def
      code_points_def toy_libs_simps)

lemma validate_phone_number_arabic_digits:
  "validate_phone_number toy_libs [1633, 1634, 1635, 1636, 1637, 1638, 1639, 1640, 1641, 1632]
     = Inr 1234567890"
  by (simp add: validate_phone_number_def isdigit_def isdigit_char_def isdecimal_char_def
      toy_libs_simps)

lemma validate_rq_alice:
  "UserCreate_validate toy_libs rq_alice =
     Inr \<lparr>uc_first_name = ''Alice'', uc_last_name = ''A'', uc_email = ''a@x.com'',
          uc_phone_number = 1234567890, uc_password = ''p1''\<rparr>"
  by (simp add: UserCreate_validate_def rq_alice_def toy_libs_simps validate_phone_number_example)

lemma register_rq_alice:
  "register_endpoint toy_libs env_ok empty_store rq_alice =
     (Inr (Message ''User registered successfully''), store_alice,
      [SessionOpen, PwdHash, DbQuery, DbAdd, DbCommit, DbRefresh, DbClose])"
  unfolding register_endpoint_def validate_rq_alice
  by (simp add: register_def register_try_def
      insert_user_def find_by_email_or_phone_def env_simps empty_store_def toy_libs_simps
      store_alice_def alice_def after_calls_def finally_close_def result_of_def store_of_def
      trace_of_def)

section \<open>Lemmas about the handlers\<close>

lemma outcome_simps:
  "result_of (r, db, tr) = r" "store_of (r, db, tr) = db" "trace_of (r, db, tr) = tr"
  by (simp_all add: result_of_def store_of_def trace_of_def)

lemma int_of_digits_Some:
  "(\<exists>n. int_of_digits L a v = Some n) = list_all (isdecimal_char L) v"
  by (induction v arbitrary: a) (auto simp: isdecimal_char_def split: option.splits)

lemma validate_phone_number_Inr:
  "(\<exists>n. validate_phone_number L v = Inr n) =
     (list_all (isdecimal_char L) v \<and> 10 \<le> length v \<and> length v \<le> 15)"
proof (cases "list_all (isdecimal_char L) v \<and> 10 \<le> length v \<and> length v \<le> 15")
  case True
  then have "isdigit L v"
    by (auto simp: isdigit_def isdigit_char_def list_all_iff)
  moreover obtain n where "int_of_digits L 0 v = Some n"
    using True int_of_digits_Some [of L 0 v] by blast
  ultimately show ?thesis
    using True by (simp add: validate_phone_number_def)
next
  case False
  have "validate_phone_number L v \<noteq> Inr n" for n
  proof (cases "int_of_digits L 0 v")
    case None
    then show ?thesis
      by (simp add: validate_phone_number_def)
  next
    case (Some m)
    then have "list_all (isdecimal_char L) v"
      using int_of_digits_Some [of L 0 v] by blast
    with False show ?thesis
      by (auto simp: validate_phone_number_def)
  qed
  with False show ?thesis by blast
qed

lemma UserCreate_validate_Inr:
  "(\<exists>u. UserCreate_validate L rq = Inr u) = well_formed_body L rq"
proof (cases "validate_phone_number L (rq_phone_number rq)")
  case (Inl m)
  with validate_phone_number_Inr [of L "rq_phone_number rq"] show ?thesis
    by (auto simp: UserCreate_validate_def well_formed_body_def split: option.splits)
next
  case (Inr n)
  with validate_phone_number_Inr [of L "rq_phone_number rq"] show ?thesis
    by (auto simp: UserCreate_validate_def well_formed_body_def split: option.splits)
qed

lemma UserCreate_validate_Inl:
  "UserCreate_validate L rq = Inl e \<Longrightarrow> \<exists>fields. e = RequestValidationError fields"
  by (auto simp: UserCreate_validate_def split: option.splits sum.splits)

lemma register_split:
  "register L env db u =
     (if fails env PwdHash then (Inl (Unexpected PwdHash), db, [SessionOpen, PwdHash])
      else if fails env DbQuery
      then (Inl (HTTPException 500 ''An error occurred during registration.''), db,
            [SessionOpen, PwdHash, DbQuery, DbRollback, DbClose])
      else case find_by_email_or_phone (rows db) (uc_email u) (uc_phone_number u) of
        Some existing \<Rightarrow>
          (Inl (HTTPException 400 ''Email or Phone Number already registered''), db,
           [SessionOpen, PwdHash, DbQuery, DbClose])
      | None \<Rightarrow>
          if fails env DbCommit
          then (Inl (HTTPException 500 ''An error occurred during registration.''), db,
                [SessionOpen, PwdHash, DbQuery, DbAdd, DbCommit, DbRollback, DbClose])
          else
            (let db' = \<lparr>rows = rows db @
                         [\<lparr>user_id = next_id db, first_name = uc_first_name u,
                           last_name = uc_last_name u, email = uc_email u,
                           phone_number = uc_phone_number u,
                           password = pwd_hash L (salt env) (uc_password u),
                           created_at = db_now env, reset_token = None,
                           reset_token_expires = None\<rparr>],
                       next_id = Suc (next_id db)\<rparr>
             in if fails env DbRefresh
                then (Inl (HTTPException 500 ''An error occurred during registration.''), db',
                      [SessionOpen, PwdHash, DbQuery, DbAdd, DbCommit, DbRefresh, DbRollback,
                       DbClose])
                else (Inr (Message ''User registered successfully''), db',
                      [SessionOpen, PwdHash, DbQuery, DbAdd, DbCommit, DbRefresh, DbClose])))"
  by (simp add: register_def register_try_def insert_user_def after_calls_def
      finally_close_def outcome_simps Let_def split: option.splits)

lemma register_trace_order:
  "precedes PwdHash DbQuery (trace_of (register L env db u))
   \<and> precedes DbQuery DbAdd (trace_of (register L env db u))
   \<and> precedes DbAdd DbCommit (trace_of (register L env db u))"
  by (simp add: register_split precedes_def outcome_simps Let_def split: option.splits)

lemma find_by_email_in_rows: "find_by_email rs e = Some u \<Longrightarrow> u \<in> set rs \<and> email u = e"
  by (auto simp: find_by_email_def find_Some_iff)

lemma reset_invariant_update:
  "reset_invariant db \<Longrightarrow> reset_fields_paired u \<Longrightarrow> reset_invariant (update_user db u)"
  by (auto simp: reset_invariant_def update_user_def list_all_iff)

lemma reset_invariant_register: "reset_invariant db \<Longrightarrow> reset_invariant (store_of (register L env db u))"
  by (simp add: register_split outcome_simps Let_def reset_invariant_def
      reset_fields_paired_def split: option.splits)

lemma reset_invariant_register_endpoint:
  "reset_invariant db \<Longrightarrow> reset_invariant (store_of (register_endpoint L env db rq))"
  by (simp add: register_endpoint_def outcome_simps reset_invariant_register split: sum.splits)

lemma reset_invariant_login: "reset_invariant db \<Longrightarrow> reset_invariant (store_of (login L env db e p))"
  by (simp add: login_def outcome_simps split: option.splits)

lemma reset_invariant_forgot_password:
  "reset_invariant db \<Longrightarrow> reset_invariant (store_of (forgot_password L env db e))"
  by (simp add: forgot_password_def outcome_simps Let_def reset_invariant_update
      reset_fields_paired_def split: option.splits)

lemma reset_password_split:
  "reset_password L env db token pw =
     (case jwt_decode L token (utcnow env 0) of
        Expired \<Rightarrow> (Inl (HTTPException 400 ''Token has expired''), db,
                     [SessionOpen, JwtDecode, DbClose])
      | Invalid \<Rightarrow> (Inl (HTTPException 400 ''Invalid token''), db,
                     [SessionOpen, JwtDecode, DbClose])
      | Raised \<Rightarrow> (Inl (Unexpected JwtDecode), db, [SessionOpen, JwtDecode, DbClose])
      | Claims email' \<Rightarrow>
          if fails env DbQuery
          then (Inl (Unexpected DbQuery), db, [SessionOpen, JwtDecode, DbQuery, DbClose])
          else case (case email' of None \<Rightarrow> None | Some e \<Rightarrow> find_by_email (rows db) e) of
            None \<Rightarrow> (Inl (HTTPException 400 ''Invalid token''), db,
                      [SessionOpen, JwtDecode, DbQuery, DbClose])
          | Some user \<Rightarrow>
              if fails env PwdHash
              then (Inl (Unexpected PwdHash), db,
                    [SessionOpen, JwtDecode, DbQuery, PwdHash, DbClose])
              else if fails env DbCommit
              then (Inl (Unexpected DbCommit), db,
                    [SessionOpen, JwtDecode, DbQuery, PwdHash, DbCommit, DbClose])
              else (Inr (Message ''Password reset successfully''),
                    update_user db (user\<lparr>password := pwd_hash L (salt env) pw\<rparr>),
                    [SessionOpen, JwtDecode, DbQuery, PwdHash, DbCommit, DbClose]))"
  by (simp add: reset_password_def reset_password_try_def after_calls_def finally_close_def
      outcome_simps split: jwt_result.splits option.splits)

lemma reset_invariant_reset_password:
  assumes "reset_invariant db"
  shows "reset_invariant (store_of (reset_password L env db token pw))"
proof -
  have "reset_fields_paired (u\<lparr>password := h\<rparr>)" if "find_by_email (rows db) e = Some u" for u e h
    using find_by_email_in_rows [OF that] assms
    by (simp add: reset_invariant_def list_all_iff reset_fields_paired_def)
  with assms show ?thesis
    by (auto simp: reset_password_split outcome_simps reset_invariant_update
        split: jwt_result.splits option.splits)
qed

lemma serve_preserves_reset_invariant:
  "reset_invariant db \<Longrightarrow> reset_invariant (store_of (serve L env db rq))"
  by (cases rq)
    (simp_all add: serve_def reset_invariant_register_endpoint reset_invariant_login
      reset_invariant_forgot_password reset_invariant_reset_password)


lemma find_by_email_update:
  "find_by_email rs e = Some u \<Longrightarrow> user_id u' = user_id u \<Longrightarrow> email u' = e \<Longrightarrow>
   find_by_email (map (\<lambda>r. if user_id r = user_id u' then u' else r) rs) e = Some u'"
  by (induction rs) (auto simp: find_by_email_def split: if_splits)







lemma reset_password_valid_token:
  assumes "jwt_decode L token (utcnow env 0) = Claims (Some e)"
    and "find_by_email (rows db) e = Some u"
    and "\<not> fails env DbQuery" and "\<not> fails env PwdHash" and "\<not> fails env DbCommit"
  shows "reset_password L env db token pw =
     (Inr (Message ''Password reset successfully''),
      update_user db (u\<lparr>password := pwd_hash L (salt env) pw\<rparr>),
      [SessionOpen, JwtDecode, DbQuery, PwdHash, DbCommit, DbClose])"
  using assms by (simp add: reset_password_split)

lemma find_by_email_update_password:
  assumes "find_by_email (rows db) e = Some u"
  shows "find_by_email (rows (update_user db (u\<lparr>password := h\<rparr>))) e = Some (u\<lparr>password := h\<rparr>)"
  using find_by_email_update [OF assms, of "u\<lparr>password := h\<rparr>"] find_by_email_in_rows [OF assms]
  by (simp add: update_user_def)

lemma find_by_email_with_reset_fields:
  "find_by_email (rows (with_reset_fields t x db)) e =
     map_option (\<lambda>r. r\<lparr>reset_token := t (user_id r), reset_token_expires := x (user_id r)\<rparr>)
       (find_by_email (rows db) e)"
proof -
  have "find (\<lambda>u. email u = e)
          (map (\<lambda>r. r\<lparr>reset_token := t (user_id r), reset_token_expires := x (user_id r)\<rparr>) rs) =
        map_option (\<lambda>r. r\<lparr>reset_token := t (user_id r), reset_token_expires := x (user_id r)\<rparr>)
          (find (\<lambda>u. email u = e) rs)" for rs
    by (induction rs) simp_all
  then show ?thesis
    by (simp add: with_reset_fields_def find_by_email_def)
qed

lemma update_user_with_reset_fields:
  "update_user (with_reset_fields t x db)
      (u\<lparr>reset_token := t (user_id u), reset_token_expires := x (user_id u), password := h\<rparr>) =
   with_reset_fields t x (update_user db (u\<lparr>password := h\<rparr>))"
  by (simp add: update_user_def with_reset_fields_def)

lemma reset_password_with_reset_fields:
  "reset_password L env (with_reset_fields t x db) token pw =
     (result_of (reset_password L env db token pw),
      with_reset_fields t x (store_of (reset_password L env db token pw)),
      trace_of (reset_password L env db token pw))"
  by (simp add: reset_password_split [of L env] outcome_simps find_by_email_with_reset_fields
      update_user_with_reset_fields split: jwt_result.splits option.splits)

lemma find_alice: "find_by_email (rows store_alice) ''a@x.com'' = Some alice"
  by (simp add: find_by_email_def store_alice_def alice_def)

lemma find_alice_pending: "find_by_email (rows store_pending) ''a@x.com'' = Some alice_pending"
  by (simp add: find_by_email_def store_pending_def alice_pending_def alice_def)

lemma forgot_password_alice:
  "forgot_password toy_libs env_ok store_alice ''a@x.com'' =
     (Inr (Message ''Password reset email sent''), store_pending,
      [SessionOpen, DbQuery, JwtEncode, DbCommit, MailEnqueue, DbClose])"
  unfolding forgot_password_def find_alice
  by (simp add: toy_libs_simps env_simps Let_def update_user_def
      store_alice_def store_pending_def alice_pending_def)

lemma login_verify_raises:
  "login toy_libs env_verify_fails store_alice ''a@x.com'' ''p1'' =
     (Inl (Unexpected PwdVerify), store_alice, [SessionOpen, DbQuery, PwdVerify])"
  unfolding login_def find_alice
  by (simp add: env_simps)

lemma reset_password_decode_raises:
  "jwt_decode L token (utcnow env 0) = Raised \<Longrightarrow>
   reset_password L env db token pw =
     (Inl (Unexpected JwtDecode), db, [SessionOpen, JwtDecode, DbClose])"
  by (simp add: reset_password_split)

lemma env_no_faults:
  "\<not> fails env_ok ev" "\<not> fails env_later ev"
  by (simp_all add: env_simps)

lemma reset_password_first:
  "reset_password toy_libs env_ok store_pending ''T1'' ''new1'' =
     (Inr (Message ''Password reset successfully''), store_reset_once,
      [SessionOpen, JwtDecode, DbQuery, PwdHash, DbCommit, DbClose])"
proof -
  have t: "jwt_decode toy_libs ''T1'' (utcnow env_ok 0) = Claims (Some ''a@x.com'')"
    by (simp add: toy_libs_simps env_simps)
  have "update_user store_pending (alice_pending\<lparr>password := pwd_hash toy_libs (salt env_ok) ''new1''\<rparr>)
      = store_reset_once"
    by (simp add: toy_libs_simps update_user_def store_pending_def store_reset_once_def)
  with reset_password_valid_token [OF t find_alice_pending env_no_faults(1) env_no_faults(1)
      env_no_faults(1), of "''new1''"]
  show ?thesis by simp
qed

lemma reset_password_second:
  "reset_password toy_libs env_later store_reset_once ''T1'' ''new2'' =
     (Inr (Message ''Password reset successfully''), store_reset_twice,
      [SessionOpen, JwtDecode, DbQuery, PwdHash, DbCommit, DbClose])"
proof -
  have t: "jwt_decode toy_libs ''T1'' (utcnow env_later 0) = Claims (Some ''a@x.com'')"
    by (simp add: toy_libs_simps env_simps)
  have f: "find_by_email (rows store_reset_once) ''a@x.com'' =
      Some (alice_pending\<lparr>password := ''$new1''\<rparr>)"
    by (simp add: find_by_email_def store_reset_once_def alice_pending_def alice_def)
  have "update_user store_reset_once
         (alice_pending\<lparr>password := ''$new1'', password := pwd_hash toy_libs (salt env_later) ''new2''\<rparr>)
      = store_reset_twice"
    by (simp add: toy_libs_simps update_user_def store_reset_once_def store_reset_twice_def)
  with reset_password_valid_token [OF t f env_no_faults(2) env_no_faults(2)
      env_no_faults(2), of "''new2''"]
  show ?thesis by simp
qed

lemma well_formed_rq_alice: "well_formed_body toy_libs rq_alice"
  by (simp add: well_formed_body_def rq_alice_def toy_libs_simps isdecimal_char_def
      code_points_def)


lemma not_well_formed_rq_short_phone: "\<not> well_formed_body toy_libs rq_short_phone"
  by (simp add: well_formed_body_def rq_short_phone_def code_points_def)

lemma well_formed_rq_arabic_digits: "well_formed_body toy_libs rq_arabic_digits"
  by (simp add: well_formed_body_def rq_arabic_digits_def toy_libs_simps isdecimal_char_def)

lemma not_well_formed_rq_superscripts: "\<not> well_formed_body toy_libs rq_superscripts"
  by (simp add: well_formed_body_def rq_superscripts_def toy_libs_simps isdecimal_char_def)

lemma validate_rq_arabic_digits:
  "UserCreate_validate toy_libs rq_arabic_digits =
     Inr \<lparr>uc_first_name = ''Dana'', uc_last_name = ''D'', uc_email = ''d@x.com'',
          uc_phone_number = 1234567890, uc_password = ''p4''\<rparr>"
  by (simp add: UserCreate_validate_def rq_arabic_digits_def toy_libs_simps
      validate_phone_number_arabic_digits)

lemma validate_rq_blank:
  "UserCreate_validate toy_libs rq_blank =
     Inr \<lparr>uc_first_name = [], uc_last_name = [], uc_email = ''b@x.com'',
          uc_phone_number = 9876543210, uc_password = []\<rparr>"
  by (simp add: UserCreate_validate_def rq_blank_def toy_libs_simps validate_phone_number_def
      isdigit_def isdigit_char_def isdecimal_char_def code_points_def)

lemma validate_rq_short_phone:
  "UserCreate_validate toy_libs rq_short_phone = Inl (RequestValidationError [''phone_number''])"
  by (simp add: UserCreate_validate_def rq_short_phone_def toy_libs_simps
      validate_phone_number_def isdigit_def isdigit_char_def isdecimal_char_def code_points_def)

lemma rq_alice_unique_in_empty_store:
  "find_by_email_or_phone (rows empty_store)
      (uc_email \<lparr>uc_first_name = ''Alice'', uc_last_name = ''A'', uc_email = ''a@x.com'',
          uc_phone_number = 1234567890, uc_password = ''p1''\<rparr>)
      (uc_phone_number \<lparr>uc_first_name = ''Alice'', uc_last_name = ''A'', uc_email = ''a@x.com'',
          uc_phone_number = 1234567890, uc_password = ''p1''\<rparr>) = None"
  by (simp add: find_by_email_or_phone_def empty_store_def)

section \<open>The claims\<close>

subsection \<open>C1\<close>

text \<open>
  Claim C1, as the program has it. A reset token can be used again for as long as it
  verifies: when the same token decodes to the same email at the time of two
  \<^verbatim>\<open>reset_password\<close> calls, the account exists and the store does not fail, both calls
  succeed, and after the second the account holds the hash of the second new password.
\<close>

theorem reset_token_reusable_until_expiry:
  assumes first: "jwt_decode L token (utcnow env1 0) = Claims (Some e)"
    and second: "jwt_decode L token (utcnow env2 0) = Claims (Some e)"
    and row: "find_by_email (rows db) e = Some u"
    and ok1: "\<not> fails env1 DbQuery" "\<not> fails env1 PwdHash" "\<not> fails env1 DbCommit"
    and ok2: "\<not> fails env2 DbQuery" "\<not> fails env2 PwdHash" "\<not> fails env2 DbCommit"
  shows "result_of (reset_password L env1 db token pw1) = Inr (Message ''Password reset successfully'')
     \<and> result_of (reset_password L env2 (store_of (reset_password L env1 db token pw1)) token pw2)
         = Inr (Message ''Password reset successfully'')
     \<and> find_by_email
         (rows (store_of (reset_password L env2 (store_of (reset_password L env1 db token pw1))
                            token pw2))) e
         = Some (u\<lparr>password := pwd_hash L (salt env2) pw2\<rparr>)"
proof -
  let ?u1 = "u\<lparr>password := pwd_hash L (salt env1) pw1\<rparr>"
  let ?db1 = "update_user db ?u1"
  have r1: "reset_password L env1 db token pw1 =
      (Inr (Message ''Password reset successfully''), ?db1,
       [SessionOpen, JwtDecode, DbQuery, PwdHash, DbCommit, DbClose])"
    by (rule reset_password_valid_token [OF first row ok1])
  have row1: "find_by_email (rows ?db1) e = Some ?u1"
    by (rule find_by_email_update_password [OF row])
  have r2: "reset_password L env2 ?db1 token pw2 =
      (Inr (Message ''Password reset successfully''),
       update_user ?db1 (?u1\<lparr>password := pwd_hash L (salt env2) pw2\<rparr>),
       [SessionOpen, JwtDecode, DbQuery, PwdHash, DbCommit, DbClose])"
    by (rule reset_password_valid_token [OF second row1 ok2])
  show ?thesis
    using find_by_email_update_password [OF row1, of "pwd_hash L (salt env2) pw2"]
    by (simp add: r1 r2 outcome_simps)
qed

text \<open>The theorem at a concrete input that meets its hypotheses.\<close>

theorem reset_token_reusable_until_expiry_witness:
  "jwt_decode toy_libs ''T1'' (utcnow env_ok 0) = Claims (Some ''a@x.com'')
   \<and> jwt_decode toy_libs ''T1'' (utcnow env_later 0) = Claims (Some ''a@x.com'')
   \<and> find_by_email (rows store_pending) ''a@x.com'' = Some alice_pending
   \<and> result_of (reset_password toy_libs env_ok store_pending ''T1'' ''new1'')
       = Inr (Message ''Password reset successfully'')
   \<and> result_of (reset_password toy_libs env_later
         (store_of (reset_password toy_libs env_ok store_pending ''T1'' ''new1'')) ''T1'' ''new2'')
       = Inr (Message ''Password reset successfully'')
   \<and> find_by_email
         (rows (store_of (reset_password toy_libs env_later
            (store_of (reset_password toy_libs env_ok store_pending ''T1'' ''new1''))
            ''T1'' ''new2''))) ''a@x.com''
       = Some (alice_pending\<lparr>password := ''$new2''\<rparr>)"
proof -
  have t1: "jwt_decode toy_libs ''T1'' (utcnow env_ok 0) = Claims (Some ''a@x.com'')"
    by (simp add: toy_libs_simps env_simps)
  have t2: "jwt_decode toy_libs ''T1'' (utcnow env_later 0) = Claims (Some ''a@x.com'')"
    by (simp add: toy_libs_simps env_simps)
  have ok1: "\<not> fails env_ok DbQuery" "\<not> fails env_ok PwdHash" "\<not> fails env_ok DbCommit"
    by (simp_all add: env_simps)
  have ok2: "\<not> fails env_later DbQuery" "\<not> fails env_later PwdHash"
    "\<not> fails env_later DbCommit"
    by (simp_all add: env_simps)
  from reset_token_reusable_until_expiry [OF t1 t2 find_alice_pending ok1 ok2, of "''new1''" "''new2''"]
  show ?thesis
    using t1 t2 find_alice_pending by (simp add: toy_libs_simps env_simps)
qed

text \<open>
  Claim C1 as stated (the second call with a consumed, unexpired token does not change
  the password again) fails: the token \<open>T1\<close> that \<^verbatim>\<open>forgot_password\<close> issued at time 1000
  resets the password to \<open>new1\<close> at time 1000 and again to \<open>new2\<close> at time 2000.
\<close>

theorem reset_token_single_use_counterexample:
  "store_of (forgot_password toy_libs env_ok store_alice ''a@x.com'') = store_pending
   \<and> reset_password toy_libs env_ok store_pending ''T1'' ''new1'' =
       (Inr (Message ''Password reset successfully''), store_reset_once,
        [SessionOpen, JwtDecode, DbQuery, PwdHash, DbCommit, DbClose])
   \<and> reset_password toy_libs env_later store_reset_once ''T1'' ''new2'' =
       (Inr (Message ''Password reset successfully''), store_reset_twice,
        [SessionOpen, JwtDecode, DbQuery, PwdHash, DbCommit, DbClose])
   \<and> map password (rows store_reset_once) = [''$new1'']
   \<and> map password (rows store_reset_twice) = [''$new2'']"
proof -
  have "map password (rows store_reset_once) = [''$new1'']"
    and "map password (rows store_reset_twice) = [''$new2'']"
    by (simp_all add: store_reset_once_def store_reset_twice_def)
  then show ?thesis
    by (simp add: forgot_password_alice reset_password_first reset_password_second outcome_simps)
qed

subsection \<open>C2\<close>

text \<open>
  Claim C2 (every handler closes its session on every exit path, \<^verbatim>\<open>forgot_password\<close>
  also after an unexpected exception that follows the lookup). For a registered email and
  a commit that raises, \<^verbatim>\<open>forgot_password\<close> ends with that exception and has not closed
  the session: the function has no \<^verbatim>\<open>try\<close>/\<^verbatim>\<open>finally\<close>, unlike \<^verbatim>\<open>register\<close> and
  \<^verbatim>\<open>reset_password\<close>.
\<close>

theorem forgot_password_commit_failure_leaves_session_open:
  "forgot_password toy_libs env_commit_fails store_alice ''a@x.com'' =
     (Inl (Unexpected DbCommit), store_alice, [SessionOpen, DbQuery, JwtEncode, DbCommit])
   \<and> DbClose \<notin> set (trace_of (forgot_password toy_libs env_commit_fails store_alice ''a@x.com''))"
proof -
  have "forgot_password toy_libs env_commit_fails store_alice ''a@x.com'' =
     (Inl (Unexpected DbCommit), store_alice, [SessionOpen, DbQuery, JwtEncode, DbCommit])"
    unfolding forgot_password_def find_alice
    by (simp add: env_simps Let_def)
  then show ?thesis
    by (simp add: outcome_simps)
qed

subsection \<open>C3\<close>

text \<open>
  Claim C3 (every handler rolls the transaction back before a store failure reaches the
  caller). For a registered email and a commit that raises, \<^verbatim>\<open>forgot_password\<close> ends
  with the exception without a rollback; \<^verbatim>\<open>reset_password\<close> on the same failure closes
  the session and calls no rollback; \<^verbatim>\<open>register\<close> rolls back and then closes.
\<close>

theorem forgot_password_commit_failure_no_rollback:
  "result_of (forgot_password toy_libs env_commit_fails store_alice ''a@x.com'')
     = Inl (Unexpected DbCommit)
   \<and> DbRollback \<notin> set (trace_of (forgot_password toy_libs env_commit_fails store_alice ''a@x.com''))
   \<and> trace_of (reset_password toy_libs env_commit_fails store_pending ''T1'' ''new1'')
       = [SessionOpen, JwtDecode, DbQuery, PwdHash, DbCommit, DbClose]
   \<and> trace_of (register_endpoint toy_libs env_commit_fails empty_store rq_alice)
       = [SessionOpen, PwdHash, DbQuery, DbAdd, DbCommit, DbRollback, DbClose]"
proof -
  have "forgot_password toy_libs env_commit_fails store_alice ''a@x.com'' =
     (Inl (Unexpected DbCommit), store_alice, [SessionOpen, DbQuery, JwtEncode, DbCommit])"
    unfolding forgot_password_def find_alice
    by (simp add: env_simps Let_def)
  moreover have "trace_of (reset_password toy_libs env_commit_fails store_pending ''T1'' ''new1'')
       = [SessionOpen, JwtDecode, DbQuery, PwdHash, DbCommit, DbClose]"
    by (simp add: reset_password_split toy_libs_simps env_simps find_alice_pending outcome_simps)
  moreover have "trace_of (register_endpoint toy_libs env_commit_fails empty_store rq_alice)
       = [SessionOpen, PwdHash, DbQuery, DbAdd, DbCommit, DbRollback, DbClose]"
    unfolding register_endpoint_def validate_rq_alice
    by (simp add: register_split env_simps find_by_email_or_phone_def empty_store_def
        outcome_simps)
  ultimately show ?thesis
    by (simp add: outcome_simps)
qed

subsection \<open>C4\<close>

text \<open>
  Claim C4, as the program has it. The request model constrains the email and the phone
  number only: a body whose email \<^verbatim>\<open>EmailStr\<close> accepts and whose phone number is 10 to
  15 characters, each a decimal digit of some script, reaches the handler, whatever its
  names and password are; any other body is rejected with a request-validation error
  before the handler runs, with no session opened and the store untouched.
\<close>

theorem register_validation:
  "(well_formed_body L rq \<longrightarrow>
      (\<exists>u. UserCreate_validate L rq = Inr u
           \<and> register_endpoint L env db rq = register L env db u))
   \<and> (\<not> well_formed_body L rq \<longrightarrow>
      (\<exists>fields. register_endpoint L env db rq = (Inl (RequestValidationError fields), db, [])))
   \<and> well_formed_body L (rq\<lparr>rq_first_name := a, rq_last_name := b, rq_password := c\<rparr>)
       = well_formed_body L rq"
proof (intro conjI impI)
  assume "well_formed_body L rq"
  then obtain u where "UserCreate_validate L rq = Inr u"
    using UserCreate_validate_Inr by blast
  then show "\<exists>u. UserCreate_validate L rq = Inr u
           \<and> register_endpoint L env db rq = register L env db u"
    by (simp add: register_endpoint_def)
next
  assume bad: "\<not> well_formed_body L rq"
  show "\<exists>fields. register_endpoint L env db rq = (Inl (RequestValidationError fields), db, [])"
  proof (cases "UserCreate_validate L rq")
    case (Inl e)
    then show ?thesis
      using UserCreate_validate_Inl [OF Inl] by (auto simp: register_endpoint_def)
  next
    case (Inr u)
    with bad UserCreate_validate_Inr [of L rq] show ?thesis by blast
  qed
next
  show "well_formed_body L (rq\<lparr>rq_first_name := a, rq_last_name := b, rq_password := c\<rparr>)
       = well_formed_body L rq"
    by (simp add: well_formed_body_def)
qed

text \<open>The theorem at a concrete input that meets its hypotheses.\<close>

theorem register_validation_witness:
  "well_formed_body toy_libs rq_alice
   \<and> (\<exists>u. UserCreate_validate toy_libs rq_alice = Inr u
        \<and> register_endpoint toy_libs env_ok empty_store rq_alice
            = register toy_libs env_ok empty_store u)
   \<and> well_formed_body toy_libs rq_arabic_digits
   \<and> (\<exists>u. UserCreate_validate toy_libs rq_arabic_digits = Inr u
        \<and> register_endpoint toy_libs env_ok empty_store rq_arabic_digits
            = register toy_libs env_ok empty_store u)
   \<and> \<not> well_formed_body toy_libs rq_short_phone
   \<and> (\<exists>fields. register_endpoint toy_libs env_ok empty_store rq_short_phone
        = (Inl (RequestValidationError fields), empty_store, []))
   \<and> \<not> well_formed_body toy_libs rq_superscripts
   \<and> (\<exists>fields. register_endpoint toy_libs env_ok empty_store rq_superscripts
        = (Inl (RequestValidationError fields), empty_store, []))"
  using register_validation [of toy_libs rq_alice env_ok empty_store]
    register_validation [of toy_libs rq_arabic_digits env_ok empty_store]
    register_validation [of toy_libs rq_short_phone env_ok empty_store]
    register_validation [of toy_libs rq_superscripts env_ok empty_store]
    well_formed_rq_alice well_formed_rq_arabic_digits not_well_formed_rq_short_phone
    not_well_formed_rq_superscripts
  by blast

text \<open>
  Claim C4 as stated (empty names or an empty password are rejected, and rejections are
  400 responses of the handler) fails: a body with empty first name, last name and
  password is registered, and a body with a five-digit phone number is rejected by the
  request model, not by an \<^verbatim>\<open>HTTPException\<close> with status 400.
\<close>

theorem register_accepts_blank_names_counterexample:
  "rq_first_name rq_blank = [] \<and> rq_last_name rq_blank = [] \<and> rq_password rq_blank = []
   \<and> result_of (register_endpoint toy_libs env_ok empty_store rq_blank)
       = Inr (Message ''User registered successfully'')
   \<and> map email (rows (store_of (register_endpoint toy_libs env_ok empty_store rq_blank)))
       = [''b@x.com'']
   \<and> register_endpoint toy_libs env_ok empty_store rq_short_phone
       = (Inl (RequestValidationError [''phone_number'']), empty_store, [])"
proof -
  have blank: "rq_first_name rq_blank = [] \<and> rq_last_name rq_blank = [] \<and> rq_password rq_blank = []"
    by (simp add: rq_blank_def)
  have "register_endpoint toy_libs env_ok empty_store rq_blank =
      (Inr (Message ''User registered successfully''),
       \<lparr>rows = [\<lparr>user_id = 1, first_name = [], last_name = [], email = ''b@x.com'',
                 phone_number = 9876543210, password = ''$'', created_at = 1000,
                 reset_token = None, reset_token_expires = None\<rparr>],
        next_id = 2\<rparr>,
       [SessionOpen, PwdHash, DbQuery, DbAdd, DbCommit, DbRefresh, DbClose])"
    unfolding register_endpoint_def validate_rq_blank
    by (simp add: register_split find_by_email_or_phone_def empty_store_def env_simps
        toy_libs_simps)
  then have accepted: "result_of (register_endpoint toy_libs env_ok empty_store rq_blank)
       = Inr (Message ''User registered successfully'')
     \<and> map email (rows (store_of (register_endpoint toy_libs env_ok empty_store rq_blank)))
       = [''b@x.com'']"
    by (simp add: outcome_simps)
  have rejected: "register_endpoint toy_libs env_ok empty_store rq_short_phone
       = (Inl (RequestValidationError [''phone_number'']), empty_store, [])"
    by (simp add: register_endpoint_def validate_rq_short_phone)
  from blank accepted rejected show ?thesis by blast
qed

subsection \<open>C5\<close>

text \<open>
  Claim C5, as the program has it. For every body that passes validation, \<^verbatim>\<open>register\<close>
  hashes the password first, then queries for the email or phone number, then adds and
  commits the row: no query is made before the hash, no add before the query, no commit
  before the add, whatever fails on the way; and with an unused email and phone number
  and no failure the calls are exactly open, hash, query, add, commit, refresh, close.
\<close>

theorem register_hashes_then_checks_then_inserts:
  assumes "UserCreate_validate L rq = Inr u"
  shows "precedes PwdHash DbQuery (trace_of (register_endpoint L env db rq))
     \<and> precedes DbQuery DbAdd (trace_of (register_endpoint L env db rq))
     \<and> precedes DbAdd DbCommit (trace_of (register_endpoint L env db rq))
     \<and> (find_by_email_or_phone (rows db) (uc_email u) (uc_phone_number u) = None
          \<and> \<not> fails env PwdHash \<and> \<not> fails env DbQuery \<and> \<not> fails env DbCommit
          \<and> \<not> fails env DbRefresh
        \<longrightarrow> trace_of (register_endpoint L env db rq) =
              [SessionOpen, PwdHash, DbQuery, DbAdd, DbCommit, DbRefresh, DbClose])"
proof -
  have ep: "register_endpoint L env db rq = register L env db u"
    using assms by (simp add: register_endpoint_def)
  have "find_by_email_or_phone (rows db) (uc_email u) (uc_phone_number u) = None
          \<and> \<not> fails env PwdHash \<and> \<not> fails env DbQuery \<and> \<not> fails env DbCommit
          \<and> \<not> fails env DbRefresh
        \<longrightarrow> trace_of (register L env db u) =
              [SessionOpen, PwdHash, DbQuery, DbAdd, DbCommit, DbRefresh, DbClose]"
    by (simp add: register_split outcome_simps Let_def)
  with register_trace_order [of L env db u] show ?thesis
    unfolding ep by blast
qed

text \<open>The theorem at a concrete input that meets its hypotheses.\<close>

theorem register_hashes_then_checks_then_inserts_witness:
  "UserCreate_validate toy_libs rq_alice =
     Inr \<lparr>uc_first_name = ''Alice'', uc_last_name = ''A'', uc_email = ''a@x.com'',
          uc_phone_number = 1234567890, uc_password = ''p1''\<rparr>
   \<and> precedes PwdHash DbQuery (trace_of (register_endpoint toy_libs env_ok empty_store rq_alice))
   \<and> precedes DbQuery DbAdd (trace_of (register_endpoint toy_libs env_ok empty_store rq_alice))
   \<and> precedes DbAdd DbCommit (trace_of (register_endpoint toy_libs env_ok empty_store rq_alice))
   \<and> trace_of (register_endpoint toy_libs env_ok empty_store rq_alice) =
       [SessionOpen, PwdHash, DbQuery, DbAdd, DbCommit, DbRefresh, DbClose]"
  using register_hashes_then_checks_then_inserts [OF validate_rq_alice, of env_ok empty_store]
    validate_rq_alice rq_alice_unique_in_empty_store env_no_faults(1)
  by blast

text \<open>
  Claim C5 as stated (uniqueness check, then hash, then insert) fails: in the
  registration of Alice on the empty table the password is hashed before the query.
\<close>

theorem register_checks_before_hashing_counterexample:
  "trace_of (register_endpoint toy_libs env_ok empty_store rq_alice) =
     [SessionOpen, PwdHash, DbQuery, DbAdd, DbCommit, DbRefresh, DbClose]
   \<and> \<not> precedes DbQuery PwdHash (trace_of (register_endpoint toy_libs env_ok empty_store rq_alice))"
  by (simp add: register_rq_alice outcome_simps precedes_def)

subsection \<open>C6\<close>

text \<open>
  Claim C6. \<^verbatim>\<open>reset_password\<close> decides from the decoded token alone. For every token,
  password, store and environment, the same call on the same table with any other
  contents in the reset columns of every row has the same result and the same trace,
  and leaves the store it would have left, with those other contents in the reset
  columns: the stored token and expiry are neither consulted nor changed, whether the
  token is accepted or rejected. And whenever the token decodes to an email with an
  account and the store does not fail, the call succeeds and the account holds the hash
  of the new password, whatever its reset columns contain.
\<close>

theorem reset_password_ignores_stored_reset_fields:
  "reset_password L env (with_reset_fields t x db) token pw =
       (result_of (reset_password L env db token pw),
        with_reset_fields t x (store_of (reset_password L env db token pw)),
        trace_of (reset_password L env db token pw))
   \<and> (jwt_decode L token (utcnow env 0) = Claims (Some e)
        \<and> find_by_email (rows db) e = Some u
        \<and> \<not> fails env DbQuery \<and> \<not> fails env PwdHash \<and> \<not> fails env DbCommit
      \<longrightarrow> reset_password L env db token pw =
            (Inr (Message ''Password reset successfully''),
             update_user db (u\<lparr>password := pwd_hash L (salt env) pw\<rparr>),
             [SessionOpen, JwtDecode, DbQuery, PwdHash, DbCommit, DbClose])
          \<and> find_by_email (rows (store_of (reset_password L env db token pw))) e =
              Some (u\<lparr>password := pwd_hash L (salt env) pw\<rparr>))"
proof (intro conjI impI)
  show "reset_password L env (with_reset_fields t x db) token pw =
       (result_of (reset_password L env db token pw),
        with_reset_fields t x (store_of (reset_password L env db token pw)),
        trace_of (reset_password L env db token pw))"
    by (rule reset_password_with_reset_fields)
next
  assume h: "jwt_decode L token (utcnow env 0) = Claims (Some e)
        \<and> find_by_email (rows db) e = Some u
        \<and> \<not> fails env DbQuery \<and> \<not> fails env PwdHash \<and> \<not> fails env DbCommit"
  then have token: "jwt_decode L token (utcnow env 0) = Claims (Some e)"
    and row: "find_by_email (rows db) e = Some u"
    and ok: "\<not> fails env DbQuery" "\<not> fails env PwdHash" "\<not> fails env DbCommit"
    by simp_all
  show "reset_password L env db token pw =
            (Inr (Message ''Password reset successfully''),
             update_user db (u\<lparr>password := pwd_hash L (salt env) pw\<rparr>),
             [SessionOpen, JwtDecode, DbQuery, PwdHash, DbCommit, DbClose])"
    by (rule reset_password_valid_token [OF token row ok])
  then show "find_by_email (rows (store_of (reset_password L env db token pw))) e =
              Some (u\<lparr>password := pwd_hash L (salt env) pw\<rparr>)"
    by (simp add: outcome_simps find_by_email_update_password [OF row])
qed

text \<open>
  The theorem at concrete inputs: an account whose reset columns are \<^verbatim>\<open>NULL\<close> and the
  same account with another token stored, for the token \<open>T1\<close> that verifies and for a
  token \<open>T9\<close> that does not.
\<close>

theorem reset_password_ignores_stored_reset_fields_witness:
  "jwt_decode toy_libs ''T1'' (utcnow env_ok 0) = Claims (Some ''a@x.com'')
   \<and> find_by_email (rows store_alice) ''a@x.com'' = Some alice
   \<and> reset_token alice = None \<and> reset_token_expires alice = None
   \<and> reset_password toy_libs env_ok store_alice ''T1'' ''new1'' =
       (Inr (Message ''Password reset successfully''),
        update_user store_alice (alice\<lparr>password := pwd_hash toy_libs (salt env_ok) ''new1''\<rparr>),
        [SessionOpen, JwtDecode, DbQuery, PwdHash, DbCommit, DbClose])
   \<and> find_by_email (rows (store_of (reset_password toy_libs env_ok store_alice ''T1'' ''new1'')))
         ''a@x.com''
       = Some (alice\<lparr>password := pwd_hash toy_libs (salt env_ok) ''new1''\<rparr>)
   \<and> reset_password toy_libs env_ok
         (with_reset_fields (\<lambda>k. Some ''T0'') (\<lambda>k. Some 1) store_alice) ''T1'' ''new1'' =
       (result_of (reset_password toy_libs env_ok store_alice ''T1'' ''new1''),
        with_reset_fields (\<lambda>k. Some ''T0'') (\<lambda>k. Some 1)
          (store_of (reset_password toy_libs env_ok store_alice ''T1'' ''new1'')),
        trace_of (reset_password toy_libs env_ok store_alice ''T1'' ''new1''))
   \<and> reset_password toy_libs env_ok
         (with_reset_fields (\<lambda>k. Some ''T9'') (\<lambda>k. Some 9999) store_alice) ''T9'' ''new1'' =
       (result_of (reset_password toy_libs env_ok store_alice ''T9'' ''new1''),
        with_reset_fields (\<lambda>k. Some ''T9'') (\<lambda>k. Some 9999)
          (store_of (reset_password toy_libs env_ok store_alice ''T9'' ''new1'')),
        trace_of (reset_password toy_libs env_ok store_alice ''T9'' ''new1''))
   \<and> result_of (reset_password toy_libs env_ok store_alice ''T9'' ''new1'')
       = Inl (HTTPException 400 ''Invalid token'')"
proof -
  have t: "jwt_decode toy_libs ''T1'' (utcnow env_ok 0) = Claims (Some ''a@x.com'')"
    by (simp add: toy_libs_simps env_simps)
  have n: "reset_token alice = None \<and> reset_token_expires alice = None"
    by (simp add: alice_def)
  have bad: "result_of (reset_password toy_libs env_ok store_alice ''T9'' ''new1'')
       = Inl (HTTPException 400 ''Invalid token'')"
    by (simp add: reset_password_split toy_libs_simps outcome_simps)
  from reset_password_ignores_stored_reset_fields
      [of toy_libs env_ok "\<lambda>k. Some ''T0''" "\<lambda>k. Some 1" store_alice "''T1''" "''new1''"
        "''a@x.com''" alice]
    reset_password_ignores_stored_reset_fields
      [of toy_libs env_ok "\<lambda>k. Some ''T9''" "\<lambda>k. Some 9999" store_alice "''T9''" "''new1''"
        "''a@x.com''" alice]
    t find_alice n bad env_no_faults(1)
  show ?thesis by blast
qed

subsection \<open>C7\<close>



subsection \<open>C8\<close>



subsection \<open>C9\<close>

text \<open>
  Claim C9. In every store the service can reach from an empty table, each account has
  its reset token and its expiry both set or both \<^verbatim>\<open>NULL\<close>; and every request, whatever
  it reads from outside and however it ends, keeps that property.
\<close>

theorem reset_fields_both_or_neither:
  "(reachable L db \<longrightarrow> reset_invariant db)
   \<and> (reset_invariant db \<longrightarrow> reset_invariant (store_of (serve L env db rq)))"
proof (intro conjI impI)
  assume "reachable L db"
  then show "reset_invariant db"
  proof (induction rule: reachable.induct)
    case (start db)
    then show ?case by (simp add: reset_invariant_def)
  next
    case (request db env rq)
    then show ?case by (simp add: serve_preserves_reset_invariant)
  qed
next
  assume "reset_invariant db"
  then show "reset_invariant (store_of (serve L env db rq))"
    by (rule serve_preserves_reset_invariant)
qed

text \<open>The theorem at a concrete input that meets its hypotheses.\<close>

theorem reset_fields_both_or_neither_witness:
  "reachable toy_libs store_pending \<and> reset_invariant store_pending
   \<and> reset_invariant (store_of (serve toy_libs env_ok store_pending (ResetPassword ''T1'' ''new1'')))"
proof -
  have "reachable toy_libs empty_store"
    by (rule reachable.start) (simp add: empty_store_def)
  from reachable.request [OF this, of env_ok "Register rq_alice"]
  have "reachable toy_libs store_alice"
    by (simp add: serve_def register_rq_alice outcome_simps)
  from reachable.request [OF this, of env_ok "ForgotPassword ''a@x.com''"]
  have r: "reachable toy_libs store_pending"
    by (simp add: serve_def forgot_password_alice outcome_simps)
  with reset_fields_both_or_neither [of toy_libs store_pending env_ok "ResetPassword ''T1'' ''new1''"]
  show ?thesis by blast
qed

subsection \<open>C10\<close>



end
